theory Spec2Isabelle
  imports Main "HOL-Library.Sublist"
begin

section \<open>The api-backend service (main.py)\<close>

text \<open>
  The module main.py runs its top-level statements once, when the process starts, and
  then serves two routes. The model follows that shape: \<open>startup\<close> is the module body,
  \<open>health_check\<close> and \<open>version\<close> are the two handlers, and everything a handler touches
  (the module globals, the logging configuration, the two log sinks) is a field of the
  record \<open>state\<close>, passed in and returned updated.

  The calls into the standard library and into FastAPI are modelled by their contract
  at the call site: \<open>os.getenv\<close>, \<open>Path.mkdir\<close>, \<open>logging.basicConfig\<close>,
  \<open>Logger.info\<close>, the route decorator \<open>app.get\<close> and the rendering of a handler's
  return value as a JSON response. The CORS middleware and the
  tracing pipeline are configured here and run in library code; the model records
  their configuration only.
\<close>

subsection \<open>Environment\<close>

text \<open>
  A string is the list of its bytes in UTF-8. The values of environment variables are
  bytes that need not be UTF-8: \<open>os.getenv\<close> decodes them (as UTF-8, the file-system
  encoding of a POSIX system) with the \<open>surrogateescape\<close> handler, which keeps every
  byte that does not decode as a lone surrogate in the Python string. The model keeps
  the bytes themselves, which stand for that string one to one.
\<close>

type_synonym environ = "string \<rightharpoonup> string"

text \<open>\<open>os.getenv(key, default)\<close>: the value when the variable is set (also when it is
  set to the empty string), the default otherwise.\<close>

definition getenv :: "environ \<Rightarrow> string \<Rightarrow> string \<Rightarrow> string" where
  "getenv env key dflt = (case env key of None \<Rightarrow> dflt | Some v \<Rightarrow> v)"

subsection \<open>Paths and the operating system's answers\<close>

text \<open>A path is its list of components; \<open>p / name\<close> appends one.\<close>

type_synonym path = "string list"

definition joinpath :: "path \<Rightarrow> string \<Rightarrow> path" where
  "joinpath p name = p @ [name]"

datatype os_error = FileExistsError | FileNotFoundError | PermissionError | OSError

text \<open>What the system call behind \<open>os.mkdir\<close> finds: the directory is created, the
  path exists already (as a directory or as something else), or the call fails.\<close>

datatype mkdir_outcome = Created | ExistsDir | ExistsNotDir | MkdirFails os_error

text \<open>\<open>Path.mkdir(exist_ok=...)\<close> with \<open>parents=False\<close>: an existing directory is
  accepted only under \<open>exist_ok\<close>; every other failure is raised.\<close>

definition path_mkdir :: "bool \<Rightarrow> mkdir_outcome \<Rightarrow> os_error + unit" where
  "path_mkdir exist_ok outcome =
     (case outcome of
        Created \<Rightarrow> Inr ()
      | ExistsDir \<Rightarrow> if exist_ok then Inr () else Inl FileExistsError
      | ExistsNotDir \<Rightarrow> Inl FileExistsError
      | MkdirFails e \<Rightarrow> Inl e)"

text \<open>The world the process starts in: the answers to the two file-system calls of the
  module body, and the lines each file holds already (the file handler appends).\<close>

record os_world =
  mkdir_result :: mkdir_outcome
  open_result :: "os_error option"
  file_lines :: "path \<Rightarrow> string list"

subsection \<open>JSON bodies and HTTP messages\<close>

datatype json = JStr string | JObj "(string \<times> json) list"

text \<open>
  A Python string can be encoded as UTF-8 when it holds no lone surrogate, that is, when
  the bytes it came from are well-formed UTF-8: one byte below \<open>0x80\<close>, or a lead byte
  \<open>0xC2\<close> to \<open>0xF4\<close> followed by its continuation bytes, without overlong forms,
  encoded surrogates or code points above \<open>U+10FFFF\<close>.
\<close>

definition byte_in :: "nat \<Rightarrow> nat \<Rightarrow> char \<Rightarrow> bool" where
  "byte_in lo hi c = (lo \<le> of_char c \<and> of_char c \<le> hi)"

fun utf8_valid :: "string \<Rightarrow> bool" where
  "utf8_valid [] = True"
| "utf8_valid (a # bs) =
     (if byte_in 0x00 0x7F a then utf8_valid bs
      else if byte_in 0xC2 0xDF a then
        (case bs of
           b # bs' \<Rightarrow> byte_in 0x80 0xBF b \<and> utf8_valid bs'
         | _ \<Rightarrow> False)
      else if byte_in 0xE0 0xEF a then
        (case bs of
           b # c # bs' \<Rightarrow>
             byte_in (if a = CHR 0xE0 then 0xA0 else 0x80)
                     (if a = CHR 0xED then 0x9F else 0xBF) b \<and>
             byte_in 0x80 0xBF c \<and> utf8_valid bs'
         | _ \<Rightarrow> False)
      else if byte_in 0xF0 0xF4 a then
        (case bs of
           b # c # d # bs' \<Rightarrow>
             byte_in (if a = CHR 0xF0 then 0x90 else 0x80)
                     (if a = CHR 0xF4 then 0x8F else 0xBF) b \<and>
             byte_in 0x80 0xBF c \<and> byte_in 0x80 0xBF d \<and> utf8_valid bs'
         | _ \<Rightarrow> False)
      else False)"

declare utf8_valid.simps [simp del]

text \<open>The JSON response serialises the value and encodes the text as UTF-8; that
  raises \<open>UnicodeEncodeError\<close> as soon as one string of the value cannot be encoded.\<close>

fun json_encodable :: "json \<Rightarrow> bool"
  and members_encodable :: "(string \<times> json) list \<Rightarrow> bool" where
  "json_encodable (JStr s) = utf8_valid s"
| "json_encodable (JObj kvs) = members_encodable kvs"
| "members_encodable [] = True"
| "members_encodable ((k, v) # kvs) =
     (utf8_valid k \<and> json_encodable v \<and> members_encodable kvs)"

text \<open>The body of a response: a JSON value, or plain text.\<close>

datatype content = JSONBody json | PlainText string

datatype http_method = GET | HEAD | POST | PUT | DELETE | OPTIONS | PATCH

record request =
  req_method :: http_method
  req_path :: string
  req_query :: "(string \<times> string) list"
  req_headers :: "(string \<times> string) list"

record response =
  status_code :: nat
  body :: content

subsection \<open>Logging\<close>

datatype level = DEBUG | INFO | WARNING | ERROR | CRITICAL

fun levelno :: "level \<Rightarrow> nat" where
  "levelno DEBUG = 10"
| "levelno INFO = 20"
| "levelno WARNING = 30"
| "levelno ERROR = 40"
| "levelno CRITICAL = 50"

fun levelname :: "level \<Rightarrow> string" where
  "levelname DEBUG = ''DEBUG''"
| "levelname INFO = ''INFO''"
| "levelname WARNING = ''WARNING''"
| "levelname ERROR = ''ERROR''"
| "levelname CRITICAL = ''CRITICAL''"

text \<open>A \<open>LogRecord\<close>: logger name, level, message, and the attributes given as
  \<open>extra\<close>.\<close>

record log_record =
  rec_name :: string
  rec_level :: level
  rec_msg :: string
  rec_extra :: "(string \<times> string) list"

text \<open>A format string is its sequence of fields and literal pieces.\<close>

datatype fmt_item = Asctime | Levelname | Message | Lit string

fun render_item :: "string \<Rightarrow> log_record \<Rightarrow> fmt_item \<Rightarrow> string" where
  "render_item asctime r Asctime = asctime"
| "render_item asctime r Levelname = levelname (rec_level r)"
| "render_item asctime r Message = rec_msg r"
| "render_item asctime r (Lit s) = s"

definition format_record :: "fmt_item list \<Rightarrow> string \<Rightarrow> log_record \<Rightarrow> string" where
  "format_record fmt asctime r = concat (map (render_item asctime r) fmt)"

datatype log_handler = StreamHandler | FileHandler path

subsection \<open>Tracing and CORS configuration\<close>

record cors_config =
  allow_origins :: "string list"
  allow_credentials :: bool
  allow_methods :: "string list"
  allow_headers :: "string list"

subsection \<open>The process state\<close>

text \<open>
  \<open>VERSION\<close>, \<open>resource\<close>, \<open>otlp_endpoint\<close> and \<open>cors\<close> are the module globals and the
  configuration handed to the libraries; \<open>root_level\<close>, \<open>root_format\<close> and
  \<open>root_handlers\<close> are what \<open>logging.basicConfig\<close> installs on the root logger;
  \<open>environ\<close> is the live environment of the process; \<open>stream_out\<close> is what the
  stream handler has written, \<open>files\<close> the lines of each file. \<open>handled\<close> keeps the
  records passed to the handlers, in order; Python discards them after formatting, the
  model keeps them so that properties of a record can be stated.
\<close>

record state =
  VERSION :: string
  environ :: environ
  root_level :: level
  root_format :: "fmt_item list"
  root_handlers :: "log_handler list"
  resource :: "(string \<times> string) list"
  otlp_endpoint :: string
  cors :: cors_config
  stream_out :: "string list"
  files :: "path \<Rightarrow> string list"
  handled :: "log_record list"

subsection \<open>Emitting a record\<close>

fun emit :: "string \<Rightarrow> log_handler \<Rightarrow> state \<Rightarrow> state" where
  "emit line StreamHandler st = st\<lparr>stream_out := stream_out st @ [line]\<rparr>"
| "emit line (FileHandler p) st = st\<lparr>files := (files st)(p := files st p @ [line])\<rparr>"

text \<open>The logger \<open>api-backend\<close> has no level and no handler of its own: its effective
  level is the root's, and its records propagate to the root's handlers.\<close>

definition isEnabledFor :: "level \<Rightarrow> state \<Rightarrow> bool" where
  "isEnabledFor lvl st = (levelno (root_level st) \<le> levelno lvl)"

definition callHandlers :: "string \<Rightarrow> log_record \<Rightarrow> state \<Rightarrow> state" where
  "callHandlers asctime r st =
     fold (emit (format_record (root_format st) asctime r)) (root_handlers st)
       (st\<lparr>handled := handled st @ [r]\<rparr>)"

text \<open>\<open>logger.info(msg, extra=...)\<close> at the time \<open>asctime\<close>.\<close>

definition logger_info :: "string \<Rightarrow> (string \<times> string) list \<Rightarrow> string \<Rightarrow> state \<Rightarrow> state" where
  "logger_info msg extra asctime st =
     (if isEnabledFor INFO st
      then callHandlers asctime
             \<lparr>rec_name = ''api-backend'', rec_level = INFO, rec_msg = msg, rec_extra = extra\<rparr> st
      else st)"

subsection \<open>Module body\<close>

definition log_dir :: "path \<Rightarrow> path" where
  "log_dir parent = joinpath parent ''logs''"

definition log_file :: "path \<Rightarrow> path" where
  "log_file parent = joinpath (log_dir parent) ''api-backend.log''"

definition log_format :: "fmt_item list" where
  "log_format = [Asctime, Lit '' '', Levelname, Lit '' [api-backend] '', Message]"

text \<open>
  The statements of the module in order, \<open>parent\<close> being the directory of main.py.
  \<open>log_dir.mkdir(exist_ok=True)\<close> and the constructor of the file handler (which opens
  the file for appending) raise when the system call fails; nothing catches them, so
  the module body stops there with the error.
\<close>

definition startup :: "path \<Rightarrow> environ \<Rightarrow> os_world \<Rightarrow> os_error + state" where
  "startup parent env os =
     (let version = getenv env ''API_VERSION'' ''dev'' in
      case path_mkdir True (mkdir_result os) of
        Inl e \<Rightarrow> Inl e
      | Inr _ \<Rightarrow>
          (case open_result os of
             Some e \<Rightarrow> Inl e
           | None \<Rightarrow>
               Inr \<lparr>VERSION = version,
                    environ = env,
                    root_level = INFO,
                    root_format = log_format,
                    root_handlers = [StreamHandler, FileHandler (log_file parent)],
                    resource = [(''service.name'', ''api-backend''),
                                (''service.version'', version)],
                    otlp_endpoint = getenv env ''OTEL_EXPORTER_OTLP_ENDPOINT''
                                      ''http://localhost:4318/v1/traces'',
                    cors = \<lparr>allow_origins = [''*''], allow_credentials = True,
                            allow_methods = [''*''], allow_headers = [''*'']\<rparr>,
                    stream_out = [],
                    files = file_lines os,
                    handled = []\<rparr>))"

subsection \<open>Handlers and routes\<close>

definition health_check :: "string \<Rightarrow> state \<Rightarrow> json \<times> state" where
  "health_check asctime st =
     (JObj [(''status'', JStr ''ok'')], logger_info ''/health called'' [] asctime st)"

definition version :: "string \<Rightarrow> state \<Rightarrow> json \<times> state" where
  "version asctime st =
     (JObj [(''version'', JStr (VERSION st))],
      logger_info ''/version called'' [(''version'', VERSION st)] asctime st)"

datatype endpoint = Health_check | Version

fun call_endpoint :: "endpoint \<Rightarrow> string \<Rightarrow> state \<Rightarrow> json \<times> state" where
  "call_endpoint Health_check = health_check"
| "call_endpoint Version = version"

text \<open>A route as the decorator registers it: method, path, handler, and the
  \<open>status_code\<close> argument, which neither decorator of main.py gives.\<close>

record route =
  route_method :: http_method
  route_path :: string
  route_endpoint :: endpoint
  route_status :: "nat option"

definition app_routes :: "route list" where
  "app_routes =
     [\<lparr>route_method = GET, route_path = ''/health'', route_endpoint = Health_check,
       route_status = None\<rparr>,
      \<lparr>route_method = GET, route_path = ''/version'', route_endpoint = Version,
       route_status = None\<rparr>]"

definition route_matches :: "request \<Rightarrow> route \<Rightarrow> bool" where
  "route_matches req r = (route_path r = req_path req \<and> route_method r = req_method req)"

text \<open>
  A request that matches a route runs that route's handler; the handler's return value
  is then rendered as the JSON body, under the route's status code (200 when the
  decorator gives none). When the rendering raises, the handler has run already (its
  log line is written) and the exception reaches the framework's error middleware,
  which answers 500 with the plain text \<open>Internal Server Error\<close>. The handlers take no
  parameter, so the query and the headers of the request reach neither. A request that
  matches no route is answered by the framework, outside main.py: the model returns
  \<open>None\<close> and leaves the state as it is.
\<close>

definition render_response :: "nat \<Rightarrow> json \<Rightarrow> response" where
  "render_response code content =
     (if json_encodable content
      then \<lparr>status_code = code, body = JSONBody content\<rparr>
      else \<lparr>status_code = 500, body = PlainText ''Internal Server Error''\<rparr>)"

definition handle_request :: "request \<Rightarrow> string \<Rightarrow> state \<Rightarrow> response option \<times> state" where
  "handle_request req asctime st =
     (case find (route_matches req) app_routes of
        None \<Rightarrow> (None, st)
      | Some r \<Rightarrow>
          (let (content, st') = call_endpoint (route_endpoint r) asctime st in
           (Some (render_response (case route_status r of None \<Rightarrow> 200 | Some c \<Rightarrow> c)
                    content), st')))"

subsection \<open>Runs of the process\<close>

text \<open>What happens to a running process: a request arrives at some time, or the
  environment of the process is changed (\<open>os.environ[k] = v\<close>, \<open>del os.environ[k]\<close>).\<close>

datatype event = Request request string | Putenv string string | Unsetenv string

fun step :: "event \<Rightarrow> state \<Rightarrow> state" where
  "step (Request req asctime) st = snd (handle_request req asctime st)"
| "step (Putenv k v) st = st\<lparr>environ := (environ st)(k \<mapsto> v)\<rparr>"
| "step (Unsetenv k) st = st\<lparr>environ := (environ st)(k := None)\<rparr>"

definition run :: "event list \<Rightarrow> state \<Rightarrow> state" where
  "run evs st = fold step evs st"

subsection \<open>Example inputs\<close>

text \<open>A world in which both file-system calls succeed and no file has content yet, an
  environment that sets the version, a request with a query and a header, and the state
  of the process started in directory \<open>srv\<close>. The byte \<open>0xFF\<close> occurs in no UTF-8
  text; a variable holding it is legal for the operating system.\<close>

definition example_world :: os_world where
  "example_world = \<lparr>mkdir_result = Created, open_result = None, file_lines = (\<lambda>p. [])\<rparr>"

definition example_env :: environ where
  "example_env = [''API_VERSION'' \<mapsto> ''1.2.3'']"


definition example_request :: "string \<Rightarrow> request" where
  "example_request p =
     \<lparr>req_method = GET, req_path = p, req_query = [(''verbose'', ''1'')],
      req_headers = [(''origin'', ''http://localhost:3000'')]\<rparr>"

definition example_time :: string where
  "example_time = ''2026-11-04 21:24:00,123''"

definition example_state :: "environ \<Rightarrow> state" where
  "example_state env = projr (startup [''srv''] env example_world)"

section \<open>Properties\<close>

subsection \<open>What a run leaves unchanged\<close>

lemma emit_config:
  "VERSION (emit line h st) = VERSION st"
  "root_level (emit line h st) = root_level st"
  "root_format (emit line h st) = root_format st"
  "root_handlers (emit line h st) = root_handlers st"
  "resource (emit line h st) = resource st"
  by (cases h; simp)+

lemma fold_emit_config:
  "VERSION (fold (emit line) hs st) = VERSION st"
  "root_level (fold (emit line) hs st) = root_level st"
  "root_format (fold (emit line) hs st) = root_format st"
  "root_handlers (fold (emit line) hs st) = root_handlers st"
  "resource (fold (emit line) hs st) = resource st"
  by (induction hs arbitrary: st; simp add: emit_config)+

lemma logger_info_config:
  "VERSION (logger_info msg extra t st) = VERSION st"
  "root_level (logger_info msg extra t st) = root_level st"
  "root_format (logger_info msg extra t st) = root_format st"
  "root_handlers (logger_info msg extra t st) = root_handlers st"
  "resource (logger_info msg extra t st) = resource st"
  by (simp_all add: logger_info_def callHandlers_def fold_emit_config)

lemma call_endpoint_config:
  "VERSION (snd (call_endpoint ep t st)) = VERSION st"
  "root_level (snd (call_endpoint ep t st)) = root_level st"
  "root_format (snd (call_endpoint ep t st)) = root_format st"
  "root_handlers (snd (call_endpoint ep t st)) = root_handlers st"
  "resource (snd (call_endpoint ep t st)) = resource st"
  by (cases ep; simp add: health_check_def version_def logger_info_config)+

lemma snd_handle_request:
  "snd (handle_request req t st) =
     (case find (route_matches req) app_routes of
        None \<Rightarrow> st
      | Some r \<Rightarrow> snd (call_endpoint (route_endpoint r) t st))"
  by (simp add: handle_request_def split: option.splits prod.splits)

lemma handle_request_config:
  "VERSION (snd (handle_request req t st)) = VERSION st"
  "root_level (snd (handle_request req t st)) = root_level st"
  "root_format (snd (handle_request req t st)) = root_format st"
  "root_handlers (snd (handle_request req t st)) = root_handlers st"
  "resource (snd (handle_request req t st)) = resource st"
  by (simp_all add: snd_handle_request call_endpoint_config split: option.splits)

lemma step_config:
  "VERSION (step e st) = VERSION st"
  "root_level (step e st) = root_level st"
  "root_format (step e st) = root_format st"
  "root_handlers (step e st) = root_handlers st"
  "resource (step e st) = resource st"
  by (cases e; simp add: handle_request_config)+

lemma run_config:
  "VERSION (run evs st) = VERSION st"
  "root_level (run evs st) = root_level st"
  "root_format (run evs st) = root_format st"
  "root_handlers (run evs st) = root_handlers st"
  "resource (run evs st) = resource st"
  unfolding run_def
  by (induction evs arbitrary: st; simp add: step_config)+

subsection \<open>The started process\<close>

lemma startup_Inr:
  assumes "startup parent env os = Inr st0"
  shows "VERSION st0 = getenv env ''API_VERSION'' ''dev''"
    and "root_level st0 = INFO"
    and "root_format st0 = log_format"
    and "root_handlers st0 = [StreamHandler, FileHandler (log_file parent)]"
    and "resource st0 =
           [(''service.name'', ''api-backend''),
            (''service.version'', getenv env ''API_VERSION'' ''dev'')]"
    and "handled st0 = []"
    and "stream_out st0 = []"
    and "files st0 = file_lines os"
  using assms
  by (auto simp: startup_def Let_def split: sum.splits option.splits)

lemma run_started:
  assumes "startup parent env os = Inr st0"
  shows "VERSION (run evs st0) = getenv env ''API_VERSION'' ''dev''"
    and "root_level (run evs st0) = INFO"
    and "root_format (run evs st0) = log_format"
    and "root_handlers (run evs st0) = [StreamHandler, FileHandler (log_file parent)]"
    and "resource (run evs st0) =
           [(''service.name'', ''api-backend''),
            (''service.version'', getenv env ''API_VERSION'' ''dev'')]"
  using startup_Inr(1-5) [OF assms] by (simp_all add: run_config)

lemma startup_example_state:
  "startup [''srv''] env example_world = Inr (example_state env)"
  by (simp add: example_state_def startup_def example_world_def path_mkdir_def Let_def)



lemma example_state_fresh:
  "handled (example_state env) = []"
  "stream_out (example_state env) = []"
  "files (example_state env) p = []"
  using startup_Inr(6-8) [OF startup_example_state, of env]
  by (simp_all add: example_world_def)

lemma example_request_fields:
  "req_method (example_request p) = GET"
  "req_path (example_request p) = p"
  by (simp_all add: example_request_def)

subsection \<open>Rendering\<close>

lemma render_health:
  "render_response code (JObj [(''status'', JStr ''ok'')]) =
     \<lparr>status_code = code, body = JSONBody (JObj [(''status'', JStr ''ok'')])\<rparr>"
  by (simp add: render_response_def utf8_valid.simps byte_in_def)



subsection \<open>Routing\<close>

lemma fst_handle_request:
  "fst (handle_request req t st) =
     (case find (route_matches req) app_routes of
        None \<Rightarrow> None
      | Some r \<Rightarrow>
          Some (render_response (case route_status r of None \<Rightarrow> 200 | Some c \<Rightarrow> c)
                  (fst (call_endpoint (route_endpoint r) t st))))"
  by (simp add: handle_request_def split: option.splits prod.splits)

lemma find_health:
  assumes "req_method req = GET" and "req_path req = ''/health''"
  shows "find (route_matches req) app_routes =
           Some \<lparr>route_method = GET, route_path = ''/health'',
                 route_endpoint = Health_check, route_status = None\<rparr>"
  using assms by (simp add: app_routes_def route_matches_def)

lemma find_version:
  assumes "req_method req = GET" and "req_path req = ''/version''"
  shows "find (route_matches req) app_routes =
           Some \<lparr>route_method = GET, route_path = ''/version'',
                 route_endpoint = Version, route_status = None\<rparr>"
  using assms by (simp add: app_routes_def route_matches_def)

lemma snd_handle_health:
  assumes "req_method req = GET" and "req_path req = ''/health''"
  shows "snd (handle_request req t st) = logger_info ''/health called'' [] t st"
  using assms by (simp add: snd_handle_request find_health health_check_def)

lemma snd_handle_version:
  assumes "req_method req = GET" and "req_path req = ''/version''"
  shows "snd (handle_request req t st) =
           logger_info ''/version called'' [(''version'', VERSION st)] t st"
  using assms by (simp add: snd_handle_request find_version version_def)



subsection \<open>One call of the logger\<close>

lemma logger_info_effect:
  assumes "root_level st = INFO"
    and "root_format st = log_format"
    and "root_handlers st = [StreamHandler, FileHandler p]"
  shows "logger_info msg extra asctime st =
           st\<lparr>handled := handled st @
                  [\<lparr>rec_name = ''api-backend'', rec_level = INFO, rec_msg = msg,
                    rec_extra = extra\<rparr>],
              stream_out := stream_out st @ [asctime @ '' INFO [api-backend] '' @ msg],
              files := (files st)
                (p := files st p @ [asctime @ '' INFO [api-backend] '' @ msg])\<rparr>"
  using assms
  by (simp add: logger_info_def isEnabledFor_def callHandlers_def format_record_def
      log_format_def)

section \<open>The claims\<close>

text \<open>
  C1. A GET request to /health is answered with status 200 and the body
  \<open>{"status": "ok"}\<close>, whatever its query parameters and headers are, in every state of
  the process.
\<close>

theorem health_response:
  assumes "req_method req = GET" and "req_path req = ''/health''"
  shows "fst (handle_request req asctime st) =
           Some \<lparr>status_code = 200, body = JSONBody (JObj [(''status'', JStr ''ok'')])\<rparr>"
  using assms by (simp add: fst_handle_request find_health health_check_def render_health)

theorem health_response_witness:
  "req_method (example_request ''/health'') = GET \<and>
   req_path (example_request ''/health'') = ''/health'' \<and>
   fst (handle_request (example_request ''/health'') example_time (example_state example_env)) =
     Some \<lparr>status_code = 200, body = JSONBody (JObj [(''status'', JStr ''ok'')])\<rparr>"
  using health_response [of "example_request ''/health''" example_time
      "example_state example_env"]
  by (simp add: example_request_fields)




text \<open>
  C4, as the code has it. A GET request to /version makes the handler emit exactly one
  log record, at level INFO, whose message text is \<open>/version called\<close>; the line
  written for it is the time, \<open>INFO [api-backend]\<close> and that message. The resolved
  version travels with the record as its attribute \<open>version\<close> (the \<open>extra\<close> argument)
  and is not put into the text: the format string has no field for it.
\<close>

theorem version_log_record:
  assumes "startup parent env os = Inr st0"
    and "req_method req = GET" and "req_path req = ''/version''"
  shows "handled (snd (handle_request req asctime (run evs st0))) =
           handled (run evs st0) @
             [\<lparr>rec_name = ''api-backend'', rec_level = INFO, rec_msg = ''/version called'',
               rec_extra = [(''version'', getenv env ''API_VERSION'' ''dev'')]\<rparr>] \<and>
         stream_out (snd (handle_request req asctime (run evs st0))) =
           stream_out (run evs st0) @ [asctime @ '' INFO [api-backend] /version called''] \<and>
         files (snd (handle_request req asctime (run evs st0))) (log_file parent) =
           files (run evs st0) (log_file parent) @
             [asctime @ '' INFO [api-backend] /version called'']"
  using assms(2,3) run_started [OF assms(1), of evs]
  by (simp add: snd_handle_version logger_info_effect)

theorem version_log_record_witness:
  "startup [''srv''] example_env example_world = Inr (example_state example_env) \<and>
   req_method (example_request ''/version'') = GET \<and>
   req_path (example_request ''/version'') = ''/version'' \<and>
   handled (snd (handle_request (example_request ''/version'') example_time
                   (run [] (example_state example_env)))) =
     [\<lparr>rec_name = ''api-backend'', rec_level = INFO, rec_msg = ''/version called'',
       rec_extra = [(''version'', ''1.2.3'')]\<rparr>] \<and>
   stream_out (snd (handle_request (example_request ''/version'') example_time
                      (run [] (example_state example_env)))) =
     [''2026-11-04 21:24:00,123 INFO [api-backend] /version called''] \<and>
   files (snd (handle_request (example_request ''/version'') example_time
                 (run [] (example_state example_env)))) (log_file [''srv'']) =
     [''2026-11-04 21:24:00,123 INFO [api-backend] /version called'']"
  using
    version_log_record [OF startup_example_state, where env = example_env
      and req = "example_request ''/version''" and asctime = example_time and evs = "[]"]
  by (simp add: example_request_fields startup_example_state example_state_fresh
      example_env_def getenv_def run_def example_time_def)

text \<open>
  C4, as the claim states it, fails. Started with API_VERSION unset, the resolved
  version is \<open>dev\<close>; the one record of a GET request to /version has the message
  \<open>/version called\<close> and the one line written is the time, the level, the service tag
  and that message. Neither text contains \<open>dev\<close>.
\<close>

theorem version_log_text_counterexample:
  "VERSION (example_state Map.empty) = ''dev'' \<and>
   map rec_msg (handled (snd (handle_request (example_request ''/version'') example_time
                                (example_state Map.empty)))) = [''/version called''] \<and>
   \<not> list_ex (sublist (VERSION (example_state Map.empty)))
       (map rec_msg (handled (snd (handle_request (example_request ''/version'')
                                     example_time (example_state Map.empty))))) \<and>
   stream_out (snd (handle_request (example_request ''/version'') example_time
                      (example_state Map.empty))) =
     [''2026-11-04 21:24:00,123 INFO [api-backend] /version called''] \<and>
   \<not> list_ex (sublist (VERSION (example_state Map.empty)))
       (stream_out (snd (handle_request (example_request ''/version'') example_time
                           (example_state Map.empty))))"
proof -
  have s: "startup [''srv''] Map.empty example_world = Inr (example_state Map.empty)"
    by (rule startup_example_state)
  have v: "VERSION (example_state Map.empty) = ''dev''"
    using startup_Inr(1) [OF s] by (simp add: getenv_def)
  have "snd (handle_request (example_request ''/version'') example_time
               (example_state Map.empty)) =
          logger_info ''/version called'' [(''version'', ''dev'')] example_time
            (example_state Map.empty)"
    using snd_handle_version [of "example_request ''/version''"] v
    by (simp add: example_request_fields)
  moreover have "\<not> sublist ''dev'' ''/version called''"
    by code_simp
  moreover have
    "\<not> sublist ''dev'' ''2026-11-04 21:24:00,123 INFO [api-backend] /version called''"
    by code_simp
  ultimately show ?thesis
    using v startup_Inr(2-4,6,7) [OF s]
    by (simp add: logger_info_effect example_time_def)
qed

text \<open>
  C5. A GET request to /health or to /version, after any run of the started process,
  hands exactly one record to the handlers, at level INFO, and its line is appended once
  to the console stream and once to the log file.
\<close>

theorem request_logs_once:
  assumes "startup parent env os = Inr st0"
    and "req_method req = GET"
    and "req_path req = ''/health'' \<or> req_path req = ''/version''"
  shows "map rec_level (handled (snd (handle_request req asctime (run evs st0)))) =
           map rec_level (handled (run evs st0)) @ [INFO] \<and>
         stream_out (snd (handle_request req asctime (run evs st0))) =
           stream_out (run evs st0) @
             [asctime @ '' INFO [api-backend] '' @ req_path req @ '' called''] \<and>
         files (snd (handle_request req asctime (run evs st0))) (log_file parent) =
           files (run evs st0) (log_file parent) @
             [asctime @ '' INFO [api-backend] '' @ req_path req @ '' called'']"
  using assms(3)
proof
  assume p: "req_path req = ''/health''"
  show ?thesis
    using run_started [OF assms(1), of evs]
    by (simp add: snd_handle_health [OF assms(2) p] logger_info_effect p)
next
  assume p: "req_path req = ''/version''"
  show ?thesis
    using run_started [OF assms(1), of evs]
    by (simp add: snd_handle_version [OF assms(2) p] logger_info_effect p)
qed

theorem request_logs_once_witness:
  "startup [''srv''] example_env example_world = Inr (example_state example_env) \<and>
   req_method (example_request ''/health'') = GET \<and>
   (req_path (example_request ''/health'') = ''/health'' \<or>
    req_path (example_request ''/health'') = ''/version'') \<and>
   map rec_level (handled (snd (handle_request (example_request ''/health'') example_time
                                  (run [] (example_state example_env))))) = [INFO] \<and>
   stream_out (snd (handle_request (example_request ''/health'') example_time
                      (run [] (example_state example_env)))) =
     [''2026-11-04 21:24:00,123 INFO [api-backend] /health called''] \<and>
   files (snd (handle_request (example_request ''/health'') example_time
                 (run [] (example_state example_env)))) (log_file [''srv'']) =
     [''2026-11-04 21:24:00,123 INFO [api-backend] /health called'']"
  using
    request_logs_once [OF startup_example_state, where env = example_env
      and req = "example_request ''/health''" and asctime = example_time and evs = "[]"]
  by (simp add: example_request_fields startup_example_state example_state_fresh
      run_def example_time_def)




text \<open>
  C7. When the logs directory cannot be made (the path is there but is no directory, or
  the system call fails) or the log file cannot be opened, the module body ends in an
  error and no process state comes to exist. Conversely a process that did start has
  its directory, has its file open, and has both handlers installed: the stream handler
  and the file handler on the log file.
\<close>

theorem startup_fatal:
  "((mkdir_result os \<noteq> Created \<and> mkdir_result os \<noteq> ExistsDir) \<or> open_result os \<noteq> None
      \<longrightarrow> (\<exists>e. startup parent env os = Inl e)) \<and>
   (\<forall>st0. startup parent env os = Inr st0 \<longrightarrow>
      (mkdir_result os = Created \<or> mkdir_result os = ExistsDir) \<and> open_result os = None \<and>
      root_handlers st0 = [StreamHandler, FileHandler (log_file parent)])"
  by (cases "mkdir_result os"; cases "open_result os")
     (simp_all add: startup_def path_mkdir_def Let_def)

theorem startup_fatal_witness:
  "mkdir_result (example_world\<lparr>mkdir_result := MkdirFails PermissionError\<rparr>) \<noteq> Created \<and>
   mkdir_result (example_world\<lparr>mkdir_result := MkdirFails PermissionError\<rparr>) \<noteq> ExistsDir \<and>
   startup [''srv''] example_env (example_world\<lparr>mkdir_result := MkdirFails PermissionError\<rparr>) =
     Inl PermissionError \<and>
   open_result (example_world\<lparr>open_result := Some PermissionError\<rparr>) \<noteq> None \<and>
   startup [''srv''] example_env (example_world\<lparr>open_result := Some PermissionError\<rparr>) =
     Inl PermissionError \<and>
   startup [''srv''] example_env example_world = Inr (example_state example_env) \<and>
   mkdir_result example_world = Created \<and>
   open_result example_world = None \<and>
   root_handlers (example_state example_env) =
     [StreamHandler, FileHandler [''srv'', ''logs'', ''api-backend.log'']]"
proof -
  let ?no_dir = "example_world\<lparr>mkdir_result := MkdirFails PermissionError\<rparr>"
  let ?no_file = "example_world\<lparr>open_result := Some PermissionError\<rparr>"
  have dir: "mkdir_result ?no_dir \<noteq> Created \<and> mkdir_result ?no_dir \<noteq> ExistsDir"
    by simp
  have fl: "open_result ?no_file \<noteq> None"
    by simp
  from dir startup_fatal [of ?no_dir "[''srv'']" example_env]
  obtain e1 where e1: "startup [''srv''] example_env ?no_dir = Inl e1"
    by blast
  then have "e1 = PermissionError"
    by (simp add: startup_def path_mkdir_def Let_def)
  moreover
  from fl startup_fatal [of ?no_file "[''srv'']" example_env]
  obtain e2 where e2: "startup [''srv''] example_env ?no_file = Inl e2"
    by blast
  then have "e2 = PermissionError"
    by (simp add: startup_def path_mkdir_def example_world_def Let_def)
  moreover
  from startup_fatal [of example_world "[''srv'']" example_env] startup_example_state
  have "mkdir_result example_world = Created \<or> mkdir_result example_world = ExistsDir"
    and "open_result example_world = None"
    and "root_handlers (example_state example_env) =
           [StreamHandler, FileHandler (log_file [''srv''])]"
    by blast+
  moreover have "mkdir_result example_world \<noteq> ExistsDir"
    by (simp add: example_world_def)
  ultimately show ?thesis
    using e1 e2 dir fl startup_example_state [of example_env]
    by (simp add: log_file_def log_dir_def joinpath_def)
qed






end
